theory Spec2Isabelle
  imports Complex_Main "HOL-Library.List_Lexorder" "HOL-Library.Char_ord"
begin

section \<open>Data model of the dashboard (src/app.py)\<close>

text \<open>
  The dashboard holds its data in a pandas DataFrame with the columns built by
  \<open>load_sample_data\<close>: \<open>data\<close>, \<open>provincia\<close>, \<open>visitantes\<close>, \<open>receita\<close>,
  \<open>estadia_media\<close>, \<open>satisfacao\<close>. A frame is the list of its rows, in row order.
  A Timestamp is its day number (days since 1970-01-01), so that
  \<open>hoje - timedelta(days=180)\<close> is the subtraction of 180. The float columns of a
  row hold finite numbers; they are idealised as reals (rounding is not modelled).
  The columns keep their types (datetime64, int64, float64) on a frame without rows,
  as they do when a filter leaves no row.
\<close>

record registro =
  data :: int
  provincia :: string
  visitantes :: int
  receita :: real
  estadia_media :: real
  satisfacao :: real

type_synonym frame = "registro list"

text \<open>The four options of the \<open>Periodo\<close> select box, in the order of the source.\<close>

datatype periodo = Ultimos_6_meses | Ultimo_ano | Ultimos_2_anos | Todos_os_dados

text \<open>
  Results of float64 arithmetic: a finite number, the two infinities, or NaN.
  numpy scalars do not raise on division by zero; they return these values.
\<close>

datatype float64 = Fin real | PInf | NInf | NaN

fun is_finite :: "float64 \<Rightarrow> bool" where
  "is_finite (Fin x) = True"
| "is_finite PInf = False"
| "is_finite NInf = False"
| "is_finite NaN = False"

fun fdiv :: "float64 \<Rightarrow> float64 \<Rightarrow> float64" where
  "fdiv NaN y = NaN"
| "fdiv x NaN = NaN"
| "fdiv (Fin a) (Fin b) =
     (if b = 0 then (if a = 0 then NaN else if 0 < a then PInf else NInf) else Fin (a / b))"
| "fdiv (Fin a) y = Fin 0"
| "fdiv PInf (Fin b) = (if 0 \<le> b then PInf else NInf)"
| "fdiv NInf (Fin b) = (if 0 \<le> b then NInf else PInf)"
| "fdiv x y = NaN"

fun fsub :: "float64 \<Rightarrow> float64 \<Rightarrow> float64" where
  "fsub NaN y = NaN"
| "fsub x NaN = NaN"
| "fsub (Fin a) (Fin b) = Fin (a - b)"
| "fsub (Fin a) PInf = NInf"
| "fsub (Fin a) NInf = PInf"
| "fsub PInf PInf = NaN"
| "fsub NInf NInf = NaN"
| "fsub PInf y = PInf"
| "fsub NInf y = NInf"

fun fmul :: "float64 \<Rightarrow> float64 \<Rightarrow> float64" where
  "fmul NaN y = NaN"
| "fmul x NaN = NaN"
| "fmul (Fin a) (Fin b) = Fin (a * b)"
| "fmul (Fin a) PInf = (if a = 0 then NaN else if 0 < a then PInf else NInf)"
| "fmul (Fin a) NInf = (if a = 0 then NaN else if 0 < a then NInf else PInf)"
| "fmul PInf (Fin b) = (if b = 0 then NaN else if 0 < b then PInf else NInf)"
| "fmul NInf (Fin b) = (if b = 0 then NaN else if 0 < b then NInf else PInf)"
| "fmul PInf PInf = PInf"
| "fmul NInf NInf = PInf"
| "fmul x y = NInf"

text \<open>\<open>abs(x)\<close> and the test \<open>x > c\<close>; every comparison with NaN is false.\<close>

fun fabs :: "float64 \<Rightarrow> float64" where
  "fabs (Fin a) = Fin \<bar>a\<bar>"
| "fabs PInf = PInf"
| "fabs NInf = PInf"
| "fabs NaN = NaN"

fun fgt :: "float64 \<Rightarrow> real \<Rightarrow> bool" where
  "fgt (Fin a) c = (c < a)"
| "fgt PInf c = True"
| "fgt NInf c = False"
| "fgt NaN c = False"

text \<open>\<open>Series.mean()\<close>: NaN on the empty series, no exception.\<close>

definition mean :: "real list \<Rightarrow> float64" where
  "mean xs = (if xs = [] then NaN else Fin (sum_list xs / real (length xs)))"

text \<open>\<open>Series.head(3)\<close> and \<open>Series.tail(3)\<close>: the first and the last three rows,
  all rows when there are fewer.\<close>

definition head3 :: "'a list \<Rightarrow> 'a list" where
  "head3 xs = take 3 xs"

definition tail3 :: "'a list \<Rightarrow> 'a list" where
  "tail3 xs = drop (length xs - 3) xs"

section \<open>Filters (main, lines 132-147)\<close>

text \<open>
  \<open>if provincias_selecionadas: df = df[df['provincia'].isin(provincias_selecionadas)]\<close>.
  An empty selection is falsy: the statement is skipped and the frame is kept whole.
\<close>

definition province_filter :: "string list \<Rightarrow> frame \<Rightarrow> frame" where
  "province_filter provincias_selecionadas df =
     (if provincias_selecionadas \<noteq> []
      then filter (\<lambda>r. provincia r \<in> set provincias_selecionadas) df
      else df)"

text \<open>\<open>df['data'].max()\<close> and \<open>df['data'].min()\<close>; \<open>None\<close> is NaT, the value on an
  empty column.\<close>

definition data_max :: "frame \<Rightarrow> int option" where
  "data_max df = (case map data df of [] \<Rightarrow> None | d # ds \<Rightarrow> Some (fold max ds d))"

definition data_min :: "frame \<Rightarrow> int option" where
  "data_min df = (case map data df of [] \<Rightarrow> None | d # ds \<Rightarrow> Some (fold min ds d))"

definition hoje :: "frame \<Rightarrow> int option" where
  "hoje df = data_max df"

definition data_inicio :: "periodo \<Rightarrow> frame \<Rightarrow> int option" where
  "data_inicio p df =
     (case p of
        Ultimos_6_meses \<Rightarrow> map_option (\<lambda>h. h - 180) (hoje df)
      | Ultimo_ano \<Rightarrow> map_option (\<lambda>h. h - 365) (hoje df)
      | Ultimos_2_anos \<Rightarrow> map_option (\<lambda>h. h - 730) (hoje df)
      | Todos_os_dados \<Rightarrow> data_min df)"

text \<open>\<open>df['data'] >= data_inicio\<close>: a comparison with NaT is false.\<close>

definition ts_ge :: "int \<Rightarrow> int option \<Rightarrow> bool" where
  "ts_ge d start = (case start of None \<Rightarrow> False | Some s \<Rightarrow> s \<le> d)"

definition period_filter :: "periodo \<Rightarrow> frame \<Rightarrow> frame" where
  "period_filter p df = filter (\<lambda>r. ts_ge (data r) (data_inicio p df)) df"

text \<open>The frame \<open>df_filtrado\<close> of \<open>main\<close>: the province step runs first, and the
  period step reads \<open>hoje\<close> from its result.\<close>

definition df_filtrado :: "string list \<Rightarrow> periodo \<Rightarrow> frame \<Rightarrow> frame" where
  "df_filtrado provincias_selecionadas p df =
     period_filter p (province_filter provincias_selecionadas df)"

section \<open>Indicators (main, lines 149-188)\<close>

definition total_visitantes :: "frame \<Rightarrow> int" where
  "total_visitantes df = sum_list (map visitantes df)"

text \<open>
  \<open>((df_filtrado['visitantes'].tail(3).mean() / df_filtrado['visitantes'].head(3).mean()) - 1) * 100\<close>,
  on the rows of \<open>df_filtrado\<close> in row order. \<open>delta_percent\<close> is the expression on
  a series; \<open>delta_visitantes\<close> applies it to the column the source passes.
\<close>

definition delta_percent :: "int list \<Rightarrow> float64" where
  "delta_percent vs =
     fmul (fsub (fdiv (mean (map real_of_int (tail3 vs))) (mean (map real_of_int (head3 vs))))
                (Fin 1))
          (Fin 100)"

definition delta_visitantes :: "frame \<Rightarrow> float64" where
  "delta_visitantes df = delta_percent (map visitantes df)"

definition estadia_media_kpi :: "frame \<Rightarrow> float64" where
  "estadia_media_kpi df = mean (map estadia_media df)"

definition satisfacao_media :: "frame \<Rightarrow> float64" where
  "satisfacao_media df = mean (map satisfacao df)"

text \<open>The label of the satisfaction card: \<open>"Bom" if satisfacao_media > 4.0 else "Regular"\<close>.\<close>

definition satisfacao_label :: "frame \<Rightarrow> string" where
  "satisfacao_label df =
     (if fgt (satisfacao_media df) 4 then ''Bom'' else ''Regular'')"

section \<open>Grouped aggregates and insights (main, lines 198-314)\<close>

text \<open>
  \<open>groupby\<close> sorts the group keys (\<open>sort=True\<close> is the default) and keeps one group
  per distinct key present in the frame. Province names compare in the lexicographic
  order of their characters, month numbers and dates as integers.
\<close>

definition groupby_keys :: "('k::linorder) list \<Rightarrow> 'k list" where
  "groupby_keys ks = sort (remdups ks)"

text \<open>\<open>df_filtrado.groupby('provincia')['visitantes'].sum()\<close>: a series indexed by
  province.\<close>

definition visitantes_de :: "string \<Rightarrow> frame \<Rightarrow> int" where
  "visitantes_de p df = sum_list (map visitantes (filter (\<lambda>r. provincia r = p) df))"

definition by_province :: "frame \<Rightarrow> (string \<times> int) list" where
  "by_province df = map (\<lambda>p. (p, visitantes_de p df)) (groupby_keys (map provincia df))"

text \<open>\<open>df_mensal = df_filtrado.groupby('data')['visitantes'].sum()\<close>: the total of
  each date.\<close>

definition df_mensal :: "frame \<Rightarrow> (int \<times> int) list" where
  "df_mensal df =
     map (\<lambda>d. (d, sum_list (map visitantes (filter (\<lambda>r. data r = d) df))))
         (groupby_keys (map data df))"

text \<open>
  \<open>df['data'].dt.month\<close>: the month of the year of a day number in the proleptic
  Gregorian calendar (days since 1970-01-01).
\<close>

definition mes :: "int \<Rightarrow> int" where
  "mes z =
     (let doe = (z + 719468) mod 146097;
          yoe = (doe - doe div 1460 + doe div 36524 - doe div 146096) div 365;
          doy = doe - (365 * yoe + yoe div 4 - yoe div 100);
          mp = (5 * doy + 2) div 153
      in if mp < 10 then mp + 3 else mp - 9)"

text \<open>
  \<open>df_sazonalidade.groupby('mes')['visitantes'].mean().reset_index()\<close>: one row per
  month present, with the mean of the visitors of the rows of that month.
\<close>

definition registros_do_mes :: "int \<Rightarrow> frame \<Rightarrow> frame" where
  "registros_do_mes m df = filter (\<lambda>r. mes (data r) = m) df"

definition media_do_mes :: "int \<Rightarrow> frame \<Rightarrow> real" where
  "media_do_mes m df =
     real_of_int (sum_list (map visitantes (registros_do_mes m df)))
       / real (length (registros_do_mes m df))"

definition by_month :: "frame \<Rightarrow> (int \<times> real) list" where
  "by_month df = map (\<lambda>m. (m, media_do_mes m df)) (groupby_keys (map (\<lambda>r. mes (data r)) df))"

datatype error = ValueError | IndexError

definition meses :: "string list" where
  "meses = [''Jan'', ''Fev'', ''Mar'', ''Abr'', ''Mai'', ''Jun'',
            ''Jul'', ''Ago'', ''Set'', ''Out'', ''Nov'', ''Dez'']"

text \<open>\<open>meses[x-1]\<close>: Python indexing, a negative index counts from the end and an
  index out of range raises.\<close>

definition mes_nome :: "int \<Rightarrow> error + string" where
  "mes_nome x =
     (let i = x - 1; j = (if i < 0 then i + 12 else i)
      in if 0 \<le> j \<and> j < 12 then Inr (meses ! nat j) else Inl IndexError)"

text \<open>\<open>df_sazonal['mes'].apply(lambda x: meses[x-1])\<close>: stops at the first month that
  raises.\<close>

fun apply_mes_nome :: "(int \<times> real) list \<Rightarrow> error + (int \<times> real \<times> string) list" where
  "apply_mes_nome [] = Inr []"
| "apply_mes_nome ((m, v) # rows) =
     (case mes_nome m of
        Inl e \<Rightarrow> Inl e
      | Inr nm \<Rightarrow> (case apply_mes_nome rows of
                     Inl e \<Rightarrow> Inl e
                   | Inr rows' \<Rightarrow> Inr ((m, v, nm) # rows')))"

definition df_sazonal :: "frame \<Rightarrow> error + (int \<times> real \<times> string) list" where
  "df_sazonal df = apply_mes_nome (by_month df)"

text \<open>
  \<open>idxmax\<close>: the position of the first occurrence of the maximum; on an empty series
  it raises ValueError. \<open>argmax\<close> compares the head with the maximum of the rest and
  keeps the head on a tie.
\<close>

fun argmax :: "('v::linorder) list \<Rightarrow> nat option" where
  "argmax [] = None"
| "argmax (x # xs) =
     (case argmax xs of
        None \<Rightarrow> Some 0
      | Some i \<Rightarrow> if x < xs ! i then Some (Suc i) else Some 0)"

definition idxmax :: "('v::linorder) list \<Rightarrow> error + nat" where
  "idxmax vs = (case argmax vs of None \<Rightarrow> Inl ValueError | Some i \<Rightarrow> Inr i)"

text \<open>\<open>provincia_top = df_filtrado.groupby('provincia')['visitantes'].sum().idxmax()\<close>:
  the label at the position of the maximum.\<close>

definition provincia_top :: "frame \<Rightarrow> error + string" where
  "provincia_top df =
     (case idxmax (map snd (by_province df)) of
        Inl e \<Rightarrow> Inl e
      | Inr i \<Rightarrow> Inr (fst (by_province df ! i)))"

text \<open>\<open>melhor_mes = df_sazonal.loc[df_sazonal['visitantes'].idxmax(), 'mes_nome']\<close>.\<close>

definition melhor_mes :: "(int \<times> real \<times> string) list \<Rightarrow> error + string" where
  "melhor_mes rows =
     (case idxmax (map (\<lambda>(m, v, nm). v) rows) of
        Inl e \<Rightarrow> Inl e
      | Inr i \<Rightarrow> Inr (snd (snd (rows ! i))))"

text \<open>
  The three boxes of the section "Insights Automaticos", in the order the source
  writes them. The trend box shows the word chosen by \<open>crescimento > 0\<close> and
  \<open>abs(crescimento)\<close>. \<open>df_sazonal\<close> is computed in the chart section, before the
  boxes; each step that raises ends the run.
\<close>

datatype insight =
    Destino_Mais_Popular string
  | Tendencia string float64
  | Melhor_Epoca string

definition trend :: "float64 \<Rightarrow> string" where
  "trend crescimento = (if fgt crescimento 0 then ''crescimento'' else ''decrescimento'')"

definition insights_automaticos :: "frame \<Rightarrow> error + insight list" where
  "insights_automaticos df =
     (case df_sazonal df of
        Inl e \<Rightarrow> Inl e
      | Inr rows \<Rightarrow>
          (case provincia_top df of
             Inl e \<Rightarrow> Inl e
           | Inr p \<Rightarrow>
               (let crescimento = delta_visitantes df in
                case melhor_mes rows of
                  Inl e \<Rightarrow> Inl e
                | Inr nm \<Rightarrow>
                    Inr [Destino_Mais_Popular p,
                         Tendencia (trend crescimento) (fabs crescimento),
                         Melhor_Epoca nm])))"

text \<open>A row with the given date, province and visitors, used in the examples.\<close>

definition reg :: "int \<Rightarrow> string \<Rightarrow> int \<Rightarrow> registro" where
  "reg d p v = \<lparr>data = d, provincia = p, visitantes = v, receita = 100,
                estadia_media = 3, satisfacao = 4\<rparr>"

subsection \<open>The filters as the specification words them\<close>

text \<open>
  The specification's ProvinceFilter keeps the members of the set (none for the empty
  set), and its PeriodFilter takes the reference date from the full store and runs
  before the ProvinceFilter. These two definitions follow the specification, for
  comparison with the code above.
\<close>

definition spec_province_filter :: "string list \<Rightarrow> frame \<Rightarrow> frame" where
  "spec_province_filter sel rs = filter (\<lambda>r. provincia r \<in> set sel) rs"

definition spec_pipeline :: "string list \<Rightarrow> periodo \<Rightarrow> frame \<Rightarrow> frame" where
  "spec_pipeline sel p store = spec_province_filter sel (period_filter p store)"

section \<open>The simplified version (src/run_simple.py)\<close>

text \<open>
  The frame built by \<open>generate_sample_data\<close> has the columns Provincia,
  Visitantes_2023, Visitantes_2024, Receita_AOA, Hoteis and Satisfacao, of the types
  int64 and float64 (sums are numpy scalars, whose division by zero gives an infinity
  or NaN). Strings of the source are written in ASCII: accents are dropped, an emoji
  in front of a text is left out, and the bullet of a console line is written \<open>*\<close>.
\<close>

record linha =
  Provincia :: string
  Visitantes_2023 :: int
  Visitantes_2024 :: int
  Receita_AOA :: int
  Hoteis :: int
  Satisfacao :: real

definition generate_sample_data :: "linha list" where
  "generate_sample_data =
     [\<lparr>Provincia = ''Luanda'', Visitantes_2023 = 450000, Visitantes_2024 = 520000,
       Receita_AOA = 10312500000, Hoteis = 45, Satisfacao = 42 / 10\<rparr>,
      \<lparr>Provincia = ''Benguela'', Visitantes_2023 = 120000, Visitantes_2024 = 135000,
       Receita_AOA = 2640000000, Hoteis = 18, Satisfacao = 45 / 10\<rparr>,
      \<lparr>Provincia = ''Huila'', Visitantes_2023 = 85000, Visitantes_2024 = 92000,
       Receita_AOA = 1732500000, Hoteis = 12, Satisfacao = 47 / 10\<rparr>,
      \<lparr>Provincia = ''Namibe'', Visitantes_2023 = 65000, Visitantes_2024 = 78000,
       Receita_AOA = 1485000000, Hoteis = 8, Satisfacao = 43 / 10\<rparr>,
      \<lparr>Provincia = ''Kwanza Sul'', Visitantes_2023 = 45000, Visitantes_2024 = 52000,
       Receita_AOA = 990000000, Hoteis = 6, Satisfacao = 41 / 10\<rparr>]"

text \<open>
  What a run writes. A \<open>print\<close> of a fixed text is \<open>Print\<close>; a \<open>print\<close> of an
  f-string is \<open>Print_f\<close>, with the fixed text and the values it interpolates. The
  elements of the Streamlit page are named after the calls that write them; markup is
  abbreviated to the text it shows.
\<close>

datatype valor = Inteiro int | Decimal float64 | Texto string | Tabela "linha list"

datatype saida = Print string | Print_f string "valor list"

datatype elemento =
    Markdown string
  | Markdown_f string "valor list"
  | Subheader string
  | Info string
  | Warning string
  | Error string
  | Sidebar_header string
  | Sidebar_subheader string
  | Sidebar_info string
  | Plotly_chart string "linha list"

definition disponivel :: "bool \<Rightarrow> string" where
  "disponivel b = (if b then ''Disponivel'' else ''Nao disponivel'')"

definition show_dependencies_status :: "bool \<Rightarrow> bool \<Rightarrow> bool \<Rightarrow> saida list" where
  "show_dependencies_status STREAMLIT_AVAILABLE PANDAS_AVAILABLE PLOTLY_AVAILABLE =
     [Print ''=== STATUS DAS DEPENDENCIAS ==='',
      Print (''Streamlit: '' @ disponivel STREAMLIT_AVAILABLE),
      Print (''Pandas: '' @ disponivel PANDAS_AVAILABLE),
      Print (''Plotly: '' @ disponivel PLOTLY_AVAILABLE),
      Print (replicate 35 (CHR ''=''))]"

text \<open>
  Lines 66-76 of \<open>run_console_version\<close>, run when pandas is available. The last
  line reads \<open>df.loc[df['Visitantes_2024'].idxmax(), 'Provincia']\<close>; on an empty
  frame \<open>idxmax\<close> raises, after the lines before it were printed.
\<close>

definition estatisticas :: "linha list \<Rightarrow> saida list \<times> error option" where
  "estatisticas df =
     (let linhas =
        [Print ''DADOS DE TURISMO - PROVINCIAS PRINCIPAIS'',
         Print (replicate 50 (CHR ''='')),
         Print_f ''df.to_string'' [Tabela df],
         Print ''ESTATISTICAS RESUMO:'',
         Print_f ''Total de Visitantes 2024: '' [Inteiro (sum_list (map Visitantes_2024 df))],
         Print_f ''Receita Total: AOA'' [Inteiro (sum_list (map Receita_AOA df))],
         Print_f ''Media de Satisfacao: /5.0'' [Decimal (mean (map Satisfacao df))]]
      in case idxmax (map Visitantes_2024 df) of
           Inl e \<Rightarrow> (linhas, Some e)
         | Inr i \<Rightarrow>
             (linhas @ [Print_f ''Provincia com Maior Crescimento: '' [Texto (Provincia (df ! i))]],
              None))"

text \<open>
  \<open>run_console_version\<close>: the lines printed, and the exception that ended the run
  if there was one. The frame is the value of \<open>generate_sample_data()\<close>, taken as a
  parameter so that runs on different data can be compared.
\<close>

definition run_console_version ::
    "bool \<Rightarrow> bool \<Rightarrow> bool \<Rightarrow> linha list \<Rightarrow> saida list \<times> error option" where
  "run_console_version STREAMLIT_AVAILABLE PANDAS_AVAILABLE PLOTLY_AVAILABLE df =
     (let inicio =
            [Print ''NOMADIX - Dashboard Turistico de Angola'', Print (replicate 50 (CHR ''=''))]
            @ show_dependencies_status STREAMLIT_AVAILABLE PANDAS_AVAILABLE PLOTLY_AVAILABLE;
          (dados, erro) = (if PANDAS_AVAILABLE then estatisticas df else ([], None))
      in case erro of
           Some e \<Rightarrow> (inicio @ dados, Some e)
         | None \<Rightarrow>
             (inicio @ dados @
              [Print ''INSIGHTS PRINCIPAIS:'',
               Print ''* Luanda mantem lideranca no turismo nacional'',
               Print ''* Crescimento medio de 15% no numero de visitantes'',
               Print ''* Huila apresenta maior indice de satisfacao'',
               Print ''* Potencial de desenvolvimento no interior'',
               Print ''Para executar a versao web completa:'',
               Print ''1. Instale: pip install streamlit pandas plotly'',
               Print ''2. Execute: streamlit run src/app.py''],
              None))"

text \<open>The insight bullets of a console run: the bullet lines printed after the
  heading "INSIGHTS PRINCIPAIS:".\<close>

definition insights_printed :: "saida list \<Rightarrow> string list" where
  "insights_printed out =
     [s. Print s \<leftarrow> dropWhile (\<lambda>x. x \<noteq> Print ''INSIGHTS PRINCIPAIS:'') out, take 2 s = ''* '']"

text \<open>The list \<open>insights\<close> of \<open>run_streamlit_version\<close> (lines 301-307).\<close>

definition insights :: "string list" where
  "insights =
     [''Luanda mantem lideranca absoluta no setor turistico nacional'',
      ''Crescimento consistente de 15% no numero de visitantes'',
      ''Huila apresenta o maior indice de satisfacao dos turistas'',
      ''Grande potencial de desenvolvimento no turismo interior'',
      ''Oportunidades de investimento em infraestrutura hoteleira'']"

text \<open>
  The part of \<open>run_streamlit_version\<close> under \<open>if PANDAS_AVAILABLE\<close> (lines 154-281):
  the four cards, the charts inside \<open>try\<close> (\<open>charts_ok\<close> is false when a chart call
  raises, which the \<open>except\<close> branch reports), and the table, one row of markup per
  row of the frame.
\<close>

definition crescimento_anual :: "linha list \<Rightarrow> float64" where
  "crescimento_anual df =
     fmul (fdiv (Fin (real_of_int (sum_list (map Visitantes_2024 df)
                                    - sum_list (map Visitantes_2023 df))))
                (Fin (real_of_int (sum_list (map Visitantes_2023 df)))))
          (Fin 100)"

definition graficos :: "bool \<Rightarrow> bool \<Rightarrow> linha list \<Rightarrow> elemento list" where
  "graficos PLOTLY_AVAILABLE charts_ok df =
     (if PLOTLY_AVAILABLE
      then [Subheader ''Analise por Provincia''] @
           (if charts_ok
            then [Plotly_chart ''Visitantes por Provincia (2024)'' df,
                  Plotly_chart ''Distribuicao de Receita (AOA)'' df]
            else [Error ''Erro ao carregar graficos'',
                  Info ''Os graficos serao exibidos assim que as dependencias forem resolvidas.''])
      else [Warning ''Plotly nao disponivel. Instale com: pip install plotly''])"

definition dados_detalhados :: "bool \<Rightarrow> bool \<Rightarrow> bool \<Rightarrow> linha list \<Rightarrow> elemento list" where
  "dados_detalhados PANDAS_AVAILABLE PLOTLY_AVAILABLE charts_ok df =
     (if PANDAS_AVAILABLE
      then
        (let total_visitantes' = sum_list (map Visitantes_2024 df);
             receita_total = sum_list (map Receita_AOA df);
             satisfacao_media' = mean (map Satisfacao df);
             crescimento = crescimento_anual df;
             receita_bilhoes = fdiv (Fin (real_of_int receita_total)) (Fin 1000000000)
         in [Markdown_f ''Total de Visitantes 2024'' [Inteiro total_visitantes', Decimal crescimento],
             Markdown_f ''Receita Total'' [Decimal receita_bilhoes],
             Markdown_f ''Satisfacao Media'' [Decimal satisfacao_media'],
             Markdown_f ''Crescimento Anual'' [Decimal crescimento],
             Markdown ''<br>'']
            @ graficos PLOTLY_AVAILABLE charts_ok df
            @ [Subheader ''Dados Detalhados'',
               Markdown ''Provincia | Visitantes 2023 | Visitantes 2024 | Receita (AOA) | Hoteis | Satisfacao'']
            @ map (\<lambda>row. Markdown_f ''row''
                     [Texto (Provincia row), Inteiro (Visitantes_2023 row),
                      Inteiro (Visitantes_2024 row), Inteiro (Receita_AOA row),
                      Inteiro (Hoteis row), Decimal (Fin (Satisfacao row))]) df
            @ [Markdown ''<div></div>''])
      else [Error ''Pandas nao esta disponivel. Instale com: pip install pandas'',
            Subheader ''Dados Basicos (Exemplo)'',
            Info ''Provincias Principais: Luanda, Benguela, Huila, Namibe, Kwanza Sul''])"

text \<open>
  \<open>run_streamlit_version\<close>. \<open>config_ok\<close> is false when \<open>st.set_page_config\<close>
  raises: the function reports the error and returns. Otherwise the page ends with the
  heading "Insights Principais" and one \<open>st.info\<close> per element of \<open>insights\<close>.
\<close>

definition run_streamlit_version ::
    "bool \<Rightarrow> bool \<Rightarrow> bool \<Rightarrow> bool \<Rightarrow> bool \<Rightarrow> linha list \<Rightarrow> elemento list" where
  "run_streamlit_version config_ok STREAMLIT_AVAILABLE PANDAS_AVAILABLE PLOTLY_AVAILABLE charts_ok df =
     (if \<not> config_ok then [Error ''Erro na configuracao'']
      else
        [Markdown ''<style>.metric-card</style>'',
         Markdown ''NOMADIX'',
         Markdown ''Dashboard de Insights Turisticos - Angola'',
         Sidebar_header ''Configuracoes'',
         Sidebar_info ''Sistema de analise turistica para planejamento estrategico'']
        @ dados_detalhados PANDAS_AVAILABLE PLOTLY_AVAILABLE charts_ok df
        @ [Sidebar_subheader ''Status do Sistema'',
           Sidebar_info (''Dependencias: Streamlit: '' @ disponivel STREAMLIT_AVAILABLE
                         @ '' Pandas: '' @ disponivel PANDAS_AVAILABLE
                         @ '' Plotly: '' @ disponivel PLOTLY_AVAILABLE),
           Subheader ''Insights Principais'']
        @ map Info insights)"

text \<open>The insights a page shows: the \<open>st.info\<close> texts that follow the heading
  "Insights Principais".\<close>

definition insights_shown :: "elemento list \<Rightarrow> string list" where
  "insights_shown page =
     [s. Info s \<leftarrow> dropWhile (\<lambda>x. x \<noteq> Subheader ''Insights Principais'') page]"

section \<open>Properties of the filters\<close>

lemma fold_max_Max: "fold max ds (d::int) = Max (set (d # ds))"
  by (simp only: Max.set_eq_fold)

lemma fold_min_Min: "fold min ds (d::int) = Min (set (d # ds))"
  by (simp only: Min.set_eq_fold)

lemma data_max_nonempty: "df \<noteq> [] \<Longrightarrow> data_max df = Some (Max (data ` set df))"
  unfolding data_max_def by (cases df) (simp_all add: fold_max_Max del: Max.set_eq_fold)

lemma data_min_nonempty: "df \<noteq> [] \<Longrightarrow> data_min df = Some (Min (data ` set df))"
  unfolding data_min_def by (cases df) (simp_all add: fold_min_Min del: Min.set_eq_fold)

lemma data_max_empty: "data_max [] = None"
  by (simp add: data_max_def)

lemma data_min_empty: "data_min [] = None"
  by (simp add: data_min_def)

lemma period_filter_Todos: "period_filter Todos_os_dados df = df"
proof (cases "df = []")
  case True
  then show ?thesis by (simp add: period_filter_def)
next
  case False
  have "\<forall>r\<in>set df. ts_ge (data r) (data_inicio Todos_os_dados df)"
    using False by (simp add: data_inicio_def data_min_nonempty ts_ge_def)
  then show ?thesis by (simp add: period_filter_def)
qed

lemma period_filter_bounded:
  assumes "df \<noteq> []"
  shows "period_filter Ultimos_6_meses df = filter (\<lambda>r. Max (data ` set df) - 180 \<le> data r) df"
    and "period_filter Ultimo_ano df = filter (\<lambda>r. Max (data ` set df) - 365 \<le> data r) df"
    and "period_filter Ultimos_2_anos df = filter (\<lambda>r. Max (data ` set df) - 730 \<le> data r) df"
  using assms
  by (simp_all add: period_filter_def data_inicio_def hoje_def data_max_nonempty ts_ge_def)

text \<open>The row of the latest date passes every period option, so a non-empty frame
  stays non-empty.\<close>

lemma period_filter_nonempty:
  assumes "df \<noteq> []"
  shows "period_filter p df \<noteq> []"
proof -
  have "finite (data ` set df)" and "data ` set df \<noteq> {}"
    using assms by simp_all
  then have "Max (data ` set df) \<in> data ` set df"
    by (rule Max_in)
  then obtain r where r: "r \<in> set df" "data r = Max (data ` set df)"
    by auto
  have "r \<in> set (period_filter p df)"
  proof (cases p)
    case Todos_os_dados
    then show ?thesis using r by (simp add: period_filter_Todos)
  qed (use r assms in \<open>simp_all add: period_filter_bounded\<close>)
  then show ?thesis by auto
qed

lemma mean_finite: "xs \<noteq> [] \<Longrightarrow> is_finite (mean xs)"
  by (simp add: mean_def)

lemma mean_NaN_iff: "mean xs = NaN \<longleftrightarrow> xs = []"
  by (simp add: mean_def)

text \<open>
  Claim C1, as the code has it. With an empty selection of provinces the province
  step is skipped: the frame passes unchanged, every row is kept. On a non-empty
  store the filtered frame is then non-empty for every period option, and the mean
  stay and the mean satisfaction are finite numbers.
\<close>

theorem province_filter_empty_selection:
  "province_filter [] df = df \<and>
   (df \<noteq> [] \<longrightarrow> df_filtrado [] p df \<noteq> [] \<and>
      is_finite (estadia_media_kpi (df_filtrado [] p df)) \<and>
      is_finite (satisfacao_media (df_filtrado [] p df)))"
  by (simp add: province_filter_def df_filtrado_def period_filter_nonempty
      estadia_media_kpi_def satisfacao_media_def mean_finite)

theorem province_filter_empty_selection_witness:
  "[reg 0 ''Luanda'' 5] \<noteq> [] \<and>
   province_filter [] [reg 0 ''Luanda'' 5] = [reg 0 ''Luanda'' 5] \<and>
   df_filtrado [] Ultimos_6_meses [reg 0 ''Luanda'' 5] \<noteq> [] \<and>
   is_finite (estadia_media_kpi (df_filtrado [] Ultimos_6_meses [reg 0 ''Luanda'' 5])) \<and>
   is_finite (satisfacao_media (df_filtrado [] Ultimos_6_meses [reg 0 ''Luanda'' 5]))"
  using province_filter_empty_selection [of "[reg 0 ''Luanda'' 5]" Ultimos_6_meses] by simp

text \<open>
  The claim as the specification states it fails on a store of one row: the code keeps
  the row, where the specification's filter returns the empty sequence, and the mean
  satisfaction of the filtered frame is the number 4.
\<close>

theorem province_filter_empty_selection_counterexample:
  "province_filter [] [reg 0 ''Luanda'' 5] \<noteq> [] \<and>
   spec_province_filter [] [reg 0 ''Luanda'' 5] = [] \<and>
   satisfacao_media (df_filtrado [] Todos_os_dados [reg 0 ''Luanda'' 5]) = Fin 4"
  by (simp add: province_filter_def spec_province_filter_def df_filtrado_def period_filter_def
      data_inicio_def data_min_def ts_ge_def reg_def satisfacao_media_def mean_def)

text \<open>
  Claim C2, as the code has it. For each bounded period option the filtered frame
  holds exactly the rows of the province-filtered frame whose date is at least the
  maximum date of the province-filtered frame minus 180, 365 or 730 days: the
  province step runs first, and the reference date is read from its result.
\<close>

theorem period_filter_reference:
  assumes "province_filter sel store \<noteq> []"
  shows "df_filtrado sel Ultimos_6_meses store =
           filter (\<lambda>r. Max (data ` set (province_filter sel store)) - 180 \<le> data r)
                  (province_filter sel store) \<and>
         df_filtrado sel Ultimo_ano store =
           filter (\<lambda>r. Max (data ` set (province_filter sel store)) - 365 \<le> data r)
                  (province_filter sel store) \<and>
         df_filtrado sel Ultimos_2_anos store =
           filter (\<lambda>r. Max (data ` set (province_filter sel store)) - 730 \<le> data r)
                  (province_filter sel store)"
  using assms by (simp add: df_filtrado_def period_filter_bounded)

theorem period_filter_reference_witness:
  "province_filter [''B''] [reg 1000 ''A'' 10, reg 900 ''B'' 20, reg 0 ''B'' 30] \<noteq> [] \<and>
   df_filtrado [''B''] Ultimos_6_meses [reg 1000 ''A'' 10, reg 900 ''B'' 20, reg 0 ''B'' 30]
     = [reg 900 ''B'' 20]"
  using period_filter_reference
    [of "[''B'']" "[reg 1000 ''A'' 10, reg 900 ''B'' 20, reg 0 ''B'' 30]"]
  by (simp add: province_filter_def reg_def)

text \<open>
  The claim as stated fails on a store of two rows, province A at day 1000 and
  province B at day 0, with B selected and the six-month option: the code keeps the
  row of B (its reference date is day 0), where the reference date of the full store,
  day 1000, keeps nothing of B.
\<close>

theorem period_filter_reference_counterexample:
  "df_filtrado [''B''] Ultimos_6_meses [reg 1000 ''A'' 10, reg 0 ''B'' 20] = [reg 0 ''B'' 20] \<and>
   spec_pipeline [''B''] Ultimos_6_meses [reg 1000 ''A'' 10, reg 0 ''B'' 20] = []"
  by (simp add: df_filtrado_def spec_pipeline_def spec_province_filter_def province_filter_def
      period_filter_def data_inicio_def hoje_def data_max_def ts_ge_def reg_def)

text \<open>
  Claim C9. With the option "Todos os dados" the period step returns its input
  unchanged: the start date is the minimum date of the frame, and on an empty frame
  there is nothing to drop.
\<close>

theorem period_filter_all_identity: "period_filter Todos_os_dados df = df"
  by (rule period_filter_Todos)

section \<open>Properties of the grouped aggregates\<close>

lemma groupby_keys_set: "set (groupby_keys ks) = set ks"
  by (simp add: groupby_keys_def)

lemma groupby_keys_sorted: "sorted (groupby_keys ks)"
  by (simp add: groupby_keys_def)

lemma groupby_keys_distinct: "distinct (groupby_keys ks)"
  by (simp add: groupby_keys_def)

lemma groupby_keys_Nil: "groupby_keys ks = [] \<longleftrightarrow> ks = []"
  using groupby_keys_set [of ks] by (metis set_empty)

lemma argmax_None: "argmax xs = None \<longleftrightarrow> xs = []"
  by (cases xs) (auto split: option.splits)

lemma argmax_Some:
  "argmax xs = Some i \<Longrightarrow>
     i < length xs \<and> (\<forall>j<length xs. xs ! j \<le> xs ! i) \<and> (\<forall>j<i. xs ! j < xs ! i)"
proof (induction xs arbitrary: i)
  case Nil
  then show ?case by simp
next
  case (Cons x xs)
  show ?case
  proof (cases "argmax xs")
    case None
    then have "xs = []" by (simp add: argmax_None)
    with Cons.prems show ?thesis by auto
  next
    case (Some k)
    note IH = Cons.IH [OF Some]
    show ?thesis
    proof (cases "x < xs ! k")
      case True
      with Some Cons.prems have i: "i = Suc k" by simp
      have "\<forall>j<length (x # xs). (x # xs) ! j \<le> (x # xs) ! i"
        using IH True i by (auto simp: nth_Cons split: nat.splits)
      moreover have "\<forall>j<i. (x # xs) ! j < (x # xs) ! i"
        using IH True i by (auto simp: nth_Cons split: nat.splits)
      ultimately show ?thesis using IH i by simp
    next
      case False
      with Some Cons.prems have i: "i = 0" by simp
      have "\<forall>j<length (x # xs). (x # xs) ! j \<le> (x # xs) ! i"
      proof (intro allI impI)
        fix j assume "j < length (x # xs)"
        show "(x # xs) ! j \<le> (x # xs) ! i"
        proof (cases j)
          case 0
          then show ?thesis using i by simp
        next
          case (Suc j')
          with \<open>j < length (x # xs)\<close> have "xs ! j' \<le> xs ! k" using IH by simp
          with False Suc i show ?thesis by simp
        qed
      qed
      then show ?thesis using i by simp
    qed
  qed
qed

lemma idxmax_sorted_keys:
  fixes f :: "'k::linorder \<Rightarrow> 'v::linorder"
  assumes "sorted ks" and "ks \<noteq> []"
  shows "\<exists>i<length ks. idxmax (map f ks) = Inr i \<and>
           (\<forall>k\<in>set ks. f k \<le> f (ks ! i) \<and> (f k = f (ks ! i) \<longrightarrow> ks ! i \<le> k))"
proof -
  from assms(2) obtain i where i: "argmax (map f ks) = Some i"
    using argmax_None [of "map f ks"] by (cases "argmax (map f ks)") auto
  from argmax_Some [OF i]
  have len: "i < length ks"
    and mx: "\<forall>j<length ks. f (ks ! j) \<le> f (ks ! i)"
    and fst: "\<forall>j<i. f (ks ! j) < f (ks ! i)"
    by auto
  have "\<forall>k\<in>set ks. f k \<le> f (ks ! i) \<and> (f k = f (ks ! i) \<longrightarrow> ks ! i \<le> k)"
  proof
    fix k assume "k \<in> set ks"
    then obtain j where j: "j < length ks" "ks ! j = k"
      by (auto simp: in_set_conv_nth)
    have "f k \<le> f (ks ! i)" using mx j by auto
    moreover have "ks ! i \<le> k" if "f k = f (ks ! i)"
    proof -
      have "\<not> j < i" using fst j that by auto
      then have "i \<le> j" by simp
      then show ?thesis using assms(1) j sorted_nth_mono by blast
    qed
    ultimately show "f k \<le> f (ks ! i) \<and> (f k = f (ks ! i) \<longrightarrow> ks ! i \<le> k)" by simp
  qed
  with len i show ?thesis by (auto simp: idxmax_def)
qed

lemma div_lo: "(0::int) < k \<Longrightarrow> k * (x div k) \<le> x"
  using pos_mod_sign [of k x] mult_div_mod_eq [of k x] by linarith

lemma div_hi: "(0::int) < k \<Longrightarrow> x < k * (x div k) + k"
  using pos_mod_bound [of k x] mult_div_mod_eq [of k x] by linarith

text \<open>A coarse bound on the day of the year is enough for the month to be in range.\<close>

lemma doy_bounds:
  fixes doe :: int
  assumes d0: "0 \<le> doe" and d1: "doe < 146097"
  defines "yoe \<equiv> (doe - doe div 1460 + doe div 36524 - doe div 146096) div 365"
  shows "-61 \<le> doe - (365 * yoe + yoe div 4 - yoe div 100) \<and>
         doe - (365 * yoe + yoe div 4 - yoe div 100) \<le> 672"
proof -
  define a where "a = doe div 1460"
  define b where "b = doe div 36524"
  define c where "c = doe div 146096"
  define y4 where "y4 = yoe div 4"
  define y100 where "y100 = yoe div 100"
  have y: "yoe = (doe - a + b - c) div 365"
    unfolding yoe_def a_def b_def c_def by (rule refl)
  have fa: "1460 * a \<le> doe" "doe < 1460 * a + 1460"
    unfolding a_def by (rule div_lo, simp, rule div_hi, simp)
  have fb: "36524 * b \<le> doe" "doe < 36524 * b + 36524"
    unfolding b_def by (rule div_lo, simp, rule div_hi, simp)
  have fc: "146096 * c \<le> doe" "doe < 146096 * c + 146096"
    unfolding c_def by (rule div_lo, simp, rule div_hi, simp)
  have fy: "365 * yoe \<le> doe - a + b - c" "doe - a + b - c < 365 * yoe + 365"
    unfolding y by (rule div_lo, simp, rule div_hi, simp)
  have f4: "4 * y4 \<le> yoe" "yoe < 4 * y4 + 4"
    unfolding y4_def by (rule div_lo, simp, rule div_hi, simp)
  have f100: "100 * y100 \<le> yoe" "yoe < 100 * y100 + 100"
    unfolding y100_def by (rule div_lo, simp, rule div_hi, simp)
  have ba: "0 \<le> a" "a \<le> 100" using d0 d1 fa by linarith+
  have bb: "0 \<le> b" "b \<le> 4" using d0 d1 fb by linarith+
  have bc: "0 \<le> c" "c \<le> 1" using d0 d1 fc by linarith+
  have by1: "-1 \<le> yoe" using fy(2) fa(1) ba bb bc by linarith
  have by2: "yoe \<le> 401" using fy(1) d1 ba bb bc by linarith
  have b4: "-1 \<le> y4" using f4(2) by1 by linarith
  have b100: "-1 \<le> y100" "y100 \<le> 4" using f100 by1 by2 by linarith+
  have "1460 * y4 \<le> 365 * yoe" using f4(1) by linarith
  then have "1460 * y4 \<le> 1460 * a + 1464" using fy(1) fa(2) ba bb bc by linarith
  then have y4a: "y4 \<le> a + 1" by linarith
  have up: "doe - 365 * yoe < a - b + c + 365" using fy(2) by linarith
  have lo: "a - b + c \<le> doe - 365 * yoe" using fy(1) by linarith
  have "-61 \<le> doe - (365 * yoe + y4 - y100)" using lo y4a bb bc b100 by linarith
  moreover have "doe - (365 * yoe + y4 - y100) \<le> 672" using up ba bb bc b4 b100 by linarith
  ultimately show ?thesis unfolding y4_def y100_def by (rule conjI)
qed

lemma mes_range: "1 \<le> mes z \<and> mes z \<le> 12"
proof -
  define doe where "doe = (z + 719468) mod 146097"
  define yoe where "yoe = (doe - doe div 1460 + doe div 36524 - doe div 146096) div 365"
  define doy where "doy = doe - (365 * yoe + yoe div 4 - yoe div 100)"
  define mp where "mp = (5 * doy + 2) div 153"
  have d: "0 \<le> doe" "doe < 146097"
    unfolding doe_def by (rule pos_mod_sign, simp, rule pos_mod_bound, simp)
  have b: "-61 \<le> doy \<and> doy \<le> 672"
    unfolding doy_def yoe_def by (rule doy_bounds [OF d])
  have m: "153 * mp \<le> 5 * doy + 2" "5 * doy + 2 < 153 * mp + 153"
    unfolding mp_def by (rule div_lo, simp, rule div_hi, simp)
  have mpb: "-2 \<le> mp \<and> mp \<le> 21" using b m by linarith
  have "mes z = (if mp < 10 then mp + 3 else mp - 9)"
    unfolding mes_def Let_def mp_def doy_def yoe_def doe_def by (rule refl)
  then show ?thesis using mpb by auto
qed

lemma mes_nome_in_range: "1 \<le> m \<Longrightarrow> m \<le> 12 \<Longrightarrow> mes_nome m = Inr (meses ! nat (m - 1))"
  by (simp add: mes_nome_def Let_def)

lemma apply_mes_nome_in_range:
  "\<forall>(m, v)\<in>set rows. 1 \<le> m \<and> m \<le> 12 \<Longrightarrow>
     apply_mes_nome rows = Inr (map (\<lambda>(m, v). (m, v, meses ! nat (m - 1))) rows)"
  by (induction rows) (auto simp: mes_nome_in_range)

lemma by_month_keys_eq: "map fst (by_month df) = groupby_keys (map (\<lambda>r. mes (data r)) df)"
  by (simp add: by_month_def comp_def)

lemma by_province_keys_eq: "map fst (by_province df) = groupby_keys (map provincia df)"
  by (simp add: by_province_def comp_def)

lemma by_month_range: "(m, v) \<in> set (by_month df) \<Longrightarrow> 1 \<le> m \<and> m \<le> 12"
  by (auto simp: by_month_def groupby_keys_set mes_range)

lemma df_sazonal_rows:
  "df_sazonal df = Inr (map (\<lambda>(m, v). (m, v, meses ! nat (m - 1))) (by_month df))"
  unfolding df_sazonal_def
  by (rule apply_mes_nome_in_range) (auto dest: by_month_range)

lemma by_province_Nil: "by_province df = [] \<longleftrightarrow> df = []"
  by (simp add: by_province_def groupby_keys_Nil)

lemma by_month_Nil: "by_month df = [] \<longleftrightarrow> df = []"
  by (simp add: by_month_def groupby_keys_Nil)

lemma provincia_top_max:
  assumes "df \<noteq> []"
  shows "\<exists>p. provincia_top df = Inr p \<and> p \<in> provincia ` set df \<and>
           (\<forall>q\<in>provincia ` set df.
              visitantes_de q df \<le> visitantes_de p df \<and>
              (visitantes_de q df = visitantes_de p df \<longrightarrow> p \<le> q))"
proof -
  let ?ks = "groupby_keys (map provincia df)"
  let ?f = "\<lambda>p. visitantes_de p df"
  have ne: "?ks \<noteq> []" using assms by (simp add: groupby_keys_Nil)
  from idxmax_sorted_keys [OF groupby_keys_sorted ne, of ?f]
  obtain i where i: "i < length ?ks" "idxmax (map ?f ?ks) = Inr i"
    and mx: "\<forall>k\<in>set ?ks. ?f k \<le> ?f (?ks ! i) \<and> (?f k = ?f (?ks ! i) \<longrightarrow> ?ks ! i \<le> k)"
    by blast
  have vals: "map snd (by_province df) = map ?f ?ks"
    by (simp add: by_province_def comp_def)
  have top: "provincia_top df = Inr (?ks ! i)"
    using i by (simp add: provincia_top_def vals) (simp add: by_province_def)
  have "?ks ! i \<in> set ?ks" using i(1) by simp
  then have mem: "?ks ! i \<in> provincia ` set df" by (simp add: groupby_keys_set)
  show ?thesis using top mem mx by (auto simp: groupby_keys_set)
qed

lemma melhor_mes_max:
  assumes "df \<noteq> []"
  shows "\<exists>rows m. df_sazonal df = Inr rows \<and> melhor_mes rows = Inr (meses ! nat (m - 1)) \<and>
           m \<in> (\<lambda>r. mes (data r)) ` set df \<and>
           (\<forall>m'\<in>(\<lambda>r. mes (data r)) ` set df.
              media_do_mes m' df \<le> media_do_mes m df \<and>
              (media_do_mes m' df = media_do_mes m df \<longrightarrow> m \<le> m'))"
proof -
  let ?ks = "groupby_keys (map (\<lambda>r. mes (data r)) df)"
  let ?f = "\<lambda>m. media_do_mes m df"
  let ?rows = "map (\<lambda>(m, v). (m, v, meses ! nat (m - 1))) (by_month df)"
  have ne: "?ks \<noteq> []" using assms by (simp add: groupby_keys_Nil)
  from idxmax_sorted_keys [OF groupby_keys_sorted ne, of ?f]
  obtain i where i: "i < length ?ks" "idxmax (map ?f ?ks) = Inr i"
    and mx: "\<forall>k\<in>set ?ks. ?f k \<le> ?f (?ks ! i) \<and> (?f k = ?f (?ks ! i) \<longrightarrow> ?ks ! i \<le> k)"
    by blast
  have vals: "map (\<lambda>(m, v, nm). v) ?rows = map ?f ?ks"
    by (simp add: by_month_def comp_def)
  have row: "?rows ! i = (?ks ! i, ?f (?ks ! i), meses ! nat (?ks ! i - 1))"
    using i(1) by (simp add: by_month_def)
  have best: "melhor_mes ?rows = Inr (meses ! nat (?ks ! i - 1))"
    by (simp only: melhor_mes_def vals i(2) row sum.case snd_conv)
  have "?ks ! i \<in> set ?ks" using i(1) by simp
  then have mem: "?ks ! i \<in> (\<lambda>r. mes (data r)) ` set df" by (simp add: groupby_keys_set)
  show ?thesis
    using df_sazonal_rows [of df] best mem mx
    by (intro exI [of _ ?rows] exI [of _ "?ks ! i"]) (auto simp: groupby_keys_set)
qed

lemma insights_nonempty:
  assumes "df \<noteq> []"
  shows "\<exists>p nm. insights_automaticos df =
           Inr [Destino_Mais_Popular p,
                Tendencia (trend (delta_visitantes df)) (fabs (delta_visitantes df)),
                Melhor_Epoca nm]"
proof -
  from provincia_top_max [OF assms] obtain p where p: "provincia_top df = Inr p" by blast
  from melhor_mes_max [OF assms] obtain rows nm
    where r: "df_sazonal df = Inr rows" "melhor_mes rows = Inr nm" by blast
  show ?thesis by (simp add: insights_automaticos_def p r Let_def)
qed

lemma insights_empty: "insights_automaticos [] = Inl ValueError"
  by (simp add: insights_automaticos_def df_sazonal_def by_month_def by_province_def groupby_keys_def
      provincia_top_def idxmax_def)

section \<open>Properties of the indicators and of the insights\<close>

text \<open>The value of the delta, case by case.\<close>

lemma sum_list_real_of_int: "sum_list (map real_of_int xs) = real_of_int (sum_list xs)"
  by (induction xs) simp_all

lemma delta_of_means:
  fixes a b k :: real
  assumes "0 < k"
  shows "fmul (fsub (fdiv (Fin (a / k)) (Fin (b / k))) (Fin 1)) (Fin 100) =
     (if b = 0 then (if a = 0 then NaN else if 0 < a then PInf else NInf)
      else Fin ((a / k / (b / k) - 1) * 100))"
  using assms by (auto simp: zero_less_divide_iff)

lemma delta_percent_Nil: "delta_percent [] = NaN"
  by (simp add: delta_percent_def head3_def tail3_def mean_def)

lemma window_means:
  assumes "vs \<noteq> []"
  shows "mean (map real_of_int (head3 vs)) =
           Fin (real_of_int (sum_list (take 3 vs)) / real (min 3 (length vs)))"
    and "mean (map real_of_int (tail3 vs)) =
           Fin (real_of_int (sum_list (drop (length vs - 3) vs)) / real (min 3 (length vs)))"
proof -
  have n: "0 < length vs" using assms by simp
  show "mean (map real_of_int (head3 vs)) =
          Fin (real_of_int (sum_list (take 3 vs)) / real (min 3 (length vs)))"
    using assms by (simp add: mean_def head3_def min_def sum_list_real_of_int)
  have len: "length vs - (length vs - 3) = min 3 (length vs)" by auto
  have ne: "\<not> length vs \<le> length vs - 3" using n by linarith
  show "mean (map real_of_int (tail3 vs)) =
          Fin (real_of_int (sum_list (drop (length vs - 3) vs)) / real (min 3 (length vs)))"
    using ne by (simp add: mean_def tail3_def sum_list_real_of_int len)
qed

lemma delta_percent_value:
  assumes "vs \<noteq> []"
  shows "delta_percent vs =
     (if sum_list (take 3 vs) = 0
      then (if sum_list (drop (length vs - 3) vs) = 0 then NaN
            else if 0 < sum_list (drop (length vs - 3) vs) then PInf else NInf)
      else Fin (((real_of_int (sum_list (drop (length vs - 3) vs)) / real (min 3 (length vs)))
                 / (real_of_int (sum_list (take 3 vs)) / real (min 3 (length vs))) - 1) * 100))"
proof -
  have pos: "0 < real (min 3 (length vs))" using assms by simp
  show ?thesis
    unfolding delta_percent_def window_means [OF assms] delta_of_means [OF pos] by simp
qed

lemma delta_visitantes_finite_iff:
  "is_finite (delta_visitantes df) \<longleftrightarrow>
     df \<noteq> [] \<and> sum_list (take 3 (map visitantes df)) \<noteq> 0"
proof (cases "df = []")
  case True
  then show ?thesis by (simp add: delta_visitantes_def delta_percent_Nil)
next
  case False
  then have "map visitantes df \<noteq> []" by simp
  from delta_percent_value [OF this] False show ?thesis
    by (simp add: delta_visitantes_def)
qed

text \<open>
  Claim C3, as the code has it. The code has no undefined-trend result. The delta is
  not a finite number (it is NaN or an infinity) exactly when the filtered frame is
  empty or the visitors of the head window sum to zero, that is, their mean is zero;
  and on every non-empty frame the trend box is written all the same, with the word
  chosen by \<open>crescimento > 0\<close> and the absolute value of that delta.
\<close>

theorem trend_not_finite_iff:
  "(\<not> is_finite (delta_visitantes df) \<longleftrightarrow>
      df = [] \<or> sum_list (take 3 (map visitantes df)) = 0) \<and>
   (df \<noteq> [] \<longrightarrow>
      (\<exists>p nm. insights_automaticos df =
         Inr [Destino_Mais_Popular p,
              Tendencia (trend (delta_visitantes df)) (fabs (delta_visitantes df)),
              Melhor_Epoca nm]))"
  using delta_visitantes_finite_iff [of df] insights_nonempty [of df] by blast

theorem trend_not_finite_iff_witness:
  "[reg 0 ''A'' 0, reg 0 ''B'' 0] \<noteq> [] \<and>
   sum_list (take 3 (map visitantes [reg 0 ''A'' 0, reg 0 ''B'' 0])) = 0 \<and>
   \<not> is_finite (delta_visitantes [reg 0 ''A'' 0, reg 0 ''B'' 0]) \<and>
   (\<exists>p nm. insights_automaticos [reg 0 ''A'' 0, reg 0 ''B'' 0] =
      Inr [Destino_Mais_Popular p, Tendencia ''decrescimento'' NaN, Melhor_Epoca nm])"
proof -
  have z: "sum_list (take 3 (map visitantes [reg 0 ''A'' 0, reg 0 ''B'' 0])) = 0"
    by (simp add: reg_def)
  have d: "delta_visitantes [reg 0 ''A'' 0, reg 0 ''B'' 0] = NaN"
    by code_simp
  show ?thesis
    using trend_not_finite_iff [of "[reg 0 ''A'' 0, reg 0 ''B'' 0]"] z
    by (simp add: d trend_def)
qed

text \<open>
  The claim as stated fails on four rows with visitors 0, 0, 0 and 6: the head
  window has mean zero, the delta is plus infinity, and the trend box is written
  with the word "crescimento" and the value infinity.
\<close>

theorem trend_not_finite_iff_counterexample:
  "insights_automaticos [reg 0 ''A'' 0, reg 0 ''B'' 0, reg 0 ''C'' 0, reg 0 ''D'' 6] =
     Inr [Destino_Mais_Popular ''D'', Tendencia ''crescimento'' PInf, Melhor_Epoca ''Jan'']"
  by code_simp

text \<open>
  Claim C4, as the code has it. No insight is ever omitted. When the grouping by
  province is empty, the grouping by month is empty and the delta is NaN as well (the
  three are computed from the same frame), and the first box raises ValueError
  (\<open>idxmax\<close> of an empty series) before anything is written. When it is not empty, the
  three boxes are written, in the order destination, trend, season.
\<close>

theorem insights_all_or_error:
  "(by_province df = [] \<longrightarrow>
      by_month df = [] \<and> delta_visitantes df = NaN \<and> insights_automaticos df = Inl ValueError) \<and>
   (by_province df \<noteq> [] \<longrightarrow>
      (\<exists>p w v nm. insights_automaticos df = Inr [Destino_Mais_Popular p, Tendencia w v, Melhor_Epoca nm]))"
proof (cases "df = []")
  case True
  then show ?thesis
    by (simp add: by_province_Nil by_month_Nil insights_empty delta_visitantes_def
        delta_percent_Nil)
next
  case False
  from insights_nonempty [OF False] have
    "\<exists>p w v nm. insights_automaticos df = Inr [Destino_Mais_Popular p, Tendencia w v, Melhor_Epoca nm]"
    by blast
  with False show ?thesis by (simp add: by_province_Nil)
qed

theorem insights_all_or_error_witness:
  "by_province [reg 0 ''B'' 7, reg 40 ''A'' 7] \<noteq> [] \<and>
   (\<exists>p w v nm. insights_automaticos [reg 0 ''B'' 7, reg 40 ''A'' 7] =
      Inr [Destino_Mais_Popular p, Tendencia w v, Melhor_Epoca nm]) \<and>
   by_province [] = [] \<and> insights_automaticos [] = Inl ValueError"
proof -
  have ne: "by_province [reg 0 ''B'' 7, reg 40 ''A'' 7] \<noteq> []"
    by (simp add: by_province_Nil)
  have e: "by_province [] = []"
    by (simp add: by_province_Nil)
  show ?thesis
    using insights_all_or_error [of "[reg 0 ''B'' 7, reg 40 ''A'' 7]"]
      insights_all_or_error [of "[]"] ne e
    by blast
qed

text \<open>
  The claim as stated fails on the empty frame: the two groupings are empty, the
  delta is NaN, and the result is the error, not the empty sequence of insights.
\<close>

theorem insights_all_or_error_counterexample:
  "by_province [] = [] \<and> by_month [] = [] \<and> delta_visitantes [] = NaN \<and>
   insights_automaticos [] = Inl ValueError \<and> insights_automaticos [] \<noteq> Inr []"
  by (simp add: by_province_Nil by_month_Nil insights_empty delta_visitantes_def
      delta_percent_Nil)

text \<open>
  Claim C5, as the code has it. The mean stay and the mean satisfaction are NaN
  exactly on the empty frame: no error is raised and the value is not 0, but it is
  the float NaN, not a separate marker; the satisfaction card then shows the label
  "Regular".
\<close>

theorem means_NaN_iff_empty:
  "(estadia_media_kpi df = NaN \<longleftrightarrow> df = []) \<and>
   (satisfacao_media df = NaN \<longleftrightarrow> df = []) \<and>
   (df = [] \<longrightarrow> satisfacao_label df = ''Regular'')"
  by (simp add: estadia_media_kpi_def satisfacao_media_def satisfacao_label_def mean_NaN_iff)
    (simp add: mean_def)

theorem means_NaN_iff_empty_witness:
  "satisfacao_label [] = ''Regular'' \<and> estadia_media_kpi [reg 0 ''Luanda'' 5] \<noteq> NaN"
  using means_NaN_iff_empty [of "[]"] means_NaN_iff_empty [of "[reg 0 ''Luanda'' 5]"]
  by simp

text \<open>The claim as stated fails on the empty frame: both means are NaN.\<close>

theorem means_NaN_iff_empty_counterexample:
  "estadia_media_kpi [] = NaN \<and> satisfacao_media [] = NaN"
  by (simp add: estadia_media_kpi_def satisfacao_media_def mean_def)

text \<open>
  Claim C6, as the code has it. The series is the visitors column of the filtered
  frame, one entry per row in row order (not one total per period). On a non-empty
  frame the delta is (mean of the last three rows / mean of the first three rows
  - 1) * 100 in float arithmetic, each window holding \<open>min 3 n\<close> rows; it is the
  finite number given by that formula when the first three rows do not sum to zero.
  With fewer than three rows both windows are the whole series, and the delta is
  then 0.
\<close>

theorem delta_visitantes_formula:
  assumes "df \<noteq> []"
  shows "delta_visitantes df =
           fmul (fsub (fdiv (Fin (real_of_int (sum_list (drop (length df - 3) (map visitantes df)))
                                  / real (min 3 (length df))))
                            (Fin (real_of_int (sum_list (take 3 (map visitantes df)))
                                  / real (min 3 (length df)))))
                      (Fin 1))
                (Fin 100) \<and>
         (sum_list (take 3 (map visitantes df)) \<noteq> 0 \<longrightarrow>
            delta_visitantes df =
              Fin (((real_of_int (sum_list (drop (length df - 3) (map visitantes df)))
                       / real (min 3 (length df)))
                    / (real_of_int (sum_list (take 3 (map visitantes df)))
                       / real (min 3 (length df))) - 1) * 100)) \<and>
         (length df < 3 \<longrightarrow>
            take 3 (map visitantes df) = map visitantes df \<and>
            drop (length df - 3) (map visitantes df) = map visitantes df) \<and>
         (length df < 3 \<and> sum_list (map visitantes df) \<noteq> 0 \<longrightarrow>
            delta_visitantes df = Fin 0)"
proof -
  have ne: "map visitantes df \<noteq> []" using assms by simp
  have w: "delta_visitantes df =
           fmul (fsub (fdiv (Fin (real_of_int (sum_list (drop (length df - 3) (map visitantes df)))
                                  / real (min 3 (length df))))
                            (Fin (real_of_int (sum_list (take 3 (map visitantes df)))
                                  / real (min 3 (length df)))))
                      (Fin 1))
                (Fin 100)"
    using window_means [OF ne] by (simp add: delta_visitantes_def delta_percent_def)
  have v: "delta_visitantes df =
           Fin (((real_of_int (sum_list (drop (length df - 3) (map visitantes df)))
                    / real (min 3 (length df)))
                 / (real_of_int (sum_list (take 3 (map visitantes df)))
                    / real (min 3 (length df))) - 1) * 100)"
    if "sum_list (take 3 (map visitantes df)) \<noteq> 0"
    using delta_percent_value [OF ne] that by (simp add: delta_visitantes_def)
  have whole: "take 3 (map visitantes df) = map visitantes df"
      "drop (length df - 3) (map visitantes df) = map visitantes df"
    if "length df < 3"
    using that by simp_all
  have zero: "delta_visitantes df = Fin 0"
    if "length df < 3" and s: "sum_list (map visitantes df) \<noteq> 0"
  proof -
    have h: "sum_list (take 3 (map visitantes df)) \<noteq> 0"
      using s whole(1) [OF that(1)] by simp
    have "real_of_int (sum_list (map visitantes df)) \<noteq> 0"
      using s by simp
    moreover have "real (min 3 (length df)) \<noteq> 0"
      using assms by simp
    ultimately show ?thesis
      unfolding v [OF h] whole [OF that(1)] by simp
  qed
  from w v whole zero show ?thesis by blast
qed

theorem delta_visitantes_formula_witness:
  "[reg 0 ''A'' 100, reg 31 ''A'' 120] \<noteq> [] \<and>
   sum_list (map visitantes [reg 0 ''A'' 100, reg 31 ''A'' 120]) \<noteq> 0 \<and>
   length [reg 0 ''A'' 100, reg 31 ''A'' 120] < 3 \<and>
   delta_visitantes [reg 0 ''A'' 100, reg 31 ''A'' 120] = Fin 0"
proof -
  have h: "sum_list (map visitantes [reg 0 ''A'' 100, reg 31 ''A'' 120]) \<noteq> 0"
    by (simp add: reg_def)
  show ?thesis
    using delta_visitantes_formula [of "[reg 0 ''A'' 100, reg 31 ''A'' 120]"] h by simp
qed

text \<open>
  The claim as stated fails on two provinces over three dates, with visitors
  100, 110, 120 and 50, 40, 30: the totals per date are 150, 150, 150, on which the
  formula gives 0, and the code, which reads the rows, returns -350/13.
\<close>

theorem delta_visitantes_formula_counterexample:
  "map snd (df_mensal [reg 0 ''A'' 100, reg 0 ''B'' 50, reg 31 ''A'' 110,
                       reg 31 ''B'' 40, reg 59 ''A'' 120, reg 59 ''B'' 30]) = [150, 150, 150] \<and>
   delta_percent [150, 150, 150] = Fin 0 \<and>
   delta_visitantes [reg 0 ''A'' 100, reg 0 ''B'' 50, reg 31 ''A'' 110,
                     reg 31 ''B'' 40, reg 59 ''A'' 120, reg 59 ''B'' 30] = Fin (- (350 / 13))"
  by code_simp

text \<open>
  Claim C7. On a non-empty frame the top province is a province of the frame with
  the maximum total of visitors, and among the provinces that share the maximum it is
  the first in the lexical order of the names (\<open>groupby\<close> sorts the keys and
  \<open>idxmax\<close> takes the first maximum); the best month is the name of a month of the
  frame with the maximum mean of visitors, the lowest month number among those that
  share the maximum.
\<close>

theorem tie_break_first_key:
  assumes "df \<noteq> []"
  shows "(\<exists>p. provincia_top df = Inr p \<and> p \<in> provincia ` set df \<and>
            (\<forall>q\<in>provincia ` set df.
               visitantes_de q df \<le> visitantes_de p df \<and>
               (visitantes_de q df = visitantes_de p df \<longrightarrow> p \<le> q))) \<and>
         (\<exists>rows m. df_sazonal df = Inr rows \<and> melhor_mes rows = Inr (meses ! nat (m - 1)) \<and>
            m \<in> (\<lambda>r. mes (data r)) ` set df \<and>
            (\<forall>m'\<in>(\<lambda>r. mes (data r)) ` set df.
               media_do_mes m' df \<le> media_do_mes m df \<and>
               (media_do_mes m' df = media_do_mes m df \<longrightarrow> m \<le> m')))"
  using provincia_top_max [OF assms] melhor_mes_max [OF assms] by (rule conjI)

theorem tie_break_first_key_witness:
  "[reg 0 ''B'' 7, reg 40 ''A'' 7] \<noteq> [] \<and>
   visitantes_de ''A'' [reg 0 ''B'' 7, reg 40 ''A'' 7] =
     visitantes_de ''B'' [reg 0 ''B'' 7, reg 40 ''A'' 7] \<and>
   media_do_mes 1 [reg 0 ''B'' 7, reg 40 ''A'' 7] = media_do_mes 2 [reg 0 ''B'' 7, reg 40 ''A'' 7] \<and>
   provincia_top [reg 0 ''B'' 7, reg 40 ''A'' 7] = Inr ''A'' \<and>
   (\<exists>rows. df_sazonal [reg 0 ''B'' 7, reg 40 ''A'' 7] = Inr rows \<and> melhor_mes rows = Inr ''Jan'')"
proof -
  let ?df = "[reg 0 ''B'' 7, reg 40 ''A'' 7]"
  have ne: "?df \<noteq> []" by simp
  have ev: "visitantes_de ''A'' ?df = visitantes_de ''B'' ?df"
    "media_do_mes 1 ?df = media_do_mes 2 ?df"
    "provincia_top ?df = Inr ''A''"
    "df_sazonal ?df = Inr [(1, 7, ''Jan''), (2, 7, ''Fev'')]"
    "melhor_mes [(1, 7, ''Jan''), (2, 7, ''Fev'')] = Inr ''Jan''"
    by code_simp+
  from tie_break_first_key [OF ne] obtain p where "provincia_top ?df = Inr p" by blast
  with ev ne show ?thesis by simp
qed

text \<open>
  Claim C8. The months of the grouping by month are exactly the months of the rows of
  the frame, each once and each between 1 and 12; every month of the grouping has at
  least one row of the frame, and its value is the mean of the visitors of those rows.
\<close>

theorem by_month_keys:
  "fst ` set (by_month df) = (\<lambda>r. mes (data r)) ` set df \<and>
   fst ` set (by_month df) \<subseteq> {1..12} \<and>
   distinct (map fst (by_month df)) \<and>
   (\<forall>(m, v)\<in>set (by_month df). registros_do_mes m df \<noteq> [] \<and> v = media_do_mes m df)"
proof -
  have keys: "fst ` set (by_month df) = (\<lambda>r. mes (data r)) ` set df"
    using by_month_keys_eq [of df] groupby_keys_set [of "map (\<lambda>r. mes (data r)) df"]
    by (metis list.set_map)
  have rng: "fst ` set (by_month df) \<subseteq> {1..12}"
    unfolding keys using mes_range by auto
  have dist: "distinct (map fst (by_month df))"
    by (simp only: by_month_keys_eq groupby_keys_distinct)
  have rows: "\<forall>(m, v)\<in>set (by_month df). registros_do_mes m df \<noteq> [] \<and> v = media_do_mes m df"
  proof (clarify, rule conjI)
    fix m v assume mv: "(m, v) \<in> set (by_month df)"
    then have "m \<in> fst ` set (by_month df)" by force
    then obtain r where "r \<in> set df" "mes (data r) = m" unfolding keys by auto
    then have "r \<in> set (registros_do_mes m df)" by (simp add: registros_do_mes_def)
    then show "registros_do_mes m df \<noteq> []" by auto
    show "v = media_do_mes m df" using mv by (auto simp: by_month_def)
  qed
  from keys rng dist rows show ?thesis by blast
qed

theorem by_month_keys_witness:
  "by_month [reg 0 ''A'' 100, reg 31 ''A'' 50, reg 365 ''B'' 200] = [(1, 150), (2, 50)] \<and>
   registros_do_mes 1 [reg 0 ''A'' 100, reg 31 ''A'' 50, reg 365 ''B'' 200] \<noteq> [] \<and>
   registros_do_mes 2 [reg 0 ''A'' 100, reg 31 ''A'' 50, reg 365 ''B'' 200] \<noteq> []"
proof -
  let ?df = "[reg 0 ''A'' 100, reg 31 ''A'' 50, reg 365 ''B'' 200]"
  have ev: "by_month ?df = [(1, 150), (2, 50)]" by code_simp
  from by_month_keys [of ?df]
  have "\<forall>(m, v)\<in>set (by_month ?df). registros_do_mes m ?df \<noteq> [] \<and> v = media_do_mes m ?df"
    by blast
  with ev show ?thesis by simp
qed

section \<open>Properties of the simplified version\<close>

lemma replicate_not_heading: "replicate n (CHR ''='') \<noteq> ''INSIGHTS PRINCIPAIS:''"
  by (cases n) simp_all

lemma dados_detalhados_no_heading:
  "Subheader ''Insights Principais''
     \<notin> set (dados_detalhados PANDAS_AVAILABLE PLOTLY_AVAILABLE charts_ok df)"
  by (auto simp: dados_detalhados_def graficos_def Let_def split: if_splits)

lemma insights_shown_page:
  "insights_shown (run_streamlit_version True sa pa pl ch df) = insights"
proof -
  let ?P = "\<lambda>x. x \<noteq> Subheader ''Insights Principais''"
  let ?before = "[Markdown ''<style>.metric-card</style>'',
         Markdown ''NOMADIX'',
         Markdown ''Dashboard de Insights Turisticos - Angola'',
         Sidebar_header ''Configuracoes'',
         Sidebar_info ''Sistema de analise turistica para planejamento estrategico'']
        @ dados_detalhados pa pl ch df
        @ [Sidebar_subheader ''Status do Sistema'',
           Sidebar_info (''Dependencias: Streamlit: '' @ disponivel sa
                         @ '' Pandas: '' @ disponivel pa
                         @ '' Plotly: '' @ disponivel pl)]"
  have page: "run_streamlit_version True sa pa pl ch df =
                ?before @ (Subheader ''Insights Principais'' # map Info insights)"
    by (simp add: run_streamlit_version_def)
  have "\<And>x. x \<in> set ?before \<Longrightarrow> ?P x"
    using dados_detalhados_no_heading [of pa pl ch df] by auto
  then have "dropWhile ?P (?before @ (Subheader ''Insights Principais'' # map Info insights))
               = dropWhile ?P (Subheader ''Insights Principais'' # map Info insights)"
    by (rule dropWhile_append2)
  then have "dropWhile ?P (run_streamlit_version True sa pa pl ch df)
               = Subheader ''Insights Principais'' # map Info insights"
    unfolding page by simp
  then show ?thesis
    unfolding insights_shown_def by (simp add: insights_def)
qed

lemma estatisticas_nonempty:
  assumes "df \<noteq> []"
  shows "snd (estatisticas df) = None \<and>
         (\<forall>x\<in>set (fst (estatisticas df)). x \<noteq> Print ''INSIGHTS PRINCIPAIS:'')"
proof -
  from assms obtain i where "argmax (map Visitantes_2024 df) = Some i"
    using argmax_None [of "map Visitantes_2024 df"]
    by (cases "argmax (map Visitantes_2024 df)") auto
  then have "idxmax (map Visitantes_2024 df) = Inr i"
    by (simp add: idxmax_def)
  then show ?thesis
    by (simp add: estatisticas_def Let_def replicate_not_heading)
qed

lemma run_console_version_completes:
  assumes "PANDAS_AVAILABLE \<longrightarrow> df \<noteq> []"
  shows "snd (run_console_version sa PANDAS_AVAILABLE pl df) = None \<and>
         insights_printed (fst (run_console_version sa PANDAS_AVAILABLE pl df)) =
           [''* Luanda mantem lideranca no turismo nacional'',
            ''* Crescimento medio de 15% no numero de visitantes'',
            ''* Huila apresenta maior indice de satisfacao'',
            ''* Potencial de desenvolvimento no interior'']"
proof -
  let ?P = "\<lambda>x. x \<noteq> Print ''INSIGHTS PRINCIPAIS:''"
  let ?inicio = "[Print ''NOMADIX - Dashboard Turistico de Angola'', Print (replicate 50 (CHR ''=''))]
            @ show_dependencies_status sa PANDAS_AVAILABLE pl"
  let ?fim = "[Print ''INSIGHTS PRINCIPAIS:'',
               Print ''* Luanda mantem lideranca no turismo nacional'',
               Print ''* Crescimento medio de 15% no numero de visitantes'',
               Print ''* Huila apresenta maior indice de satisfacao'',
               Print ''* Potencial de desenvolvimento no interior'',
               Print ''Para executar a versao web completa:'',
               Print ''1. Instale: pip install streamlit pandas plotly'',
               Print ''2. Execute: streamlit run src/app.py'']"
  obtain dados where d: "(if PANDAS_AVAILABLE then estatisticas df else ([], None)) = (dados, None)"
    and nd: "\<forall>x\<in>set dados. ?P x"
  proof (cases PANDAS_AVAILABLE)
    case True
    with assms have "df \<noteq> []" by simp
    from estatisticas_nonempty [OF this] True that [of "fst (estatisticas df)"]
    show ?thesis by (metis prod.collapse)
  next
    case False
    with that [of "[]"] show ?thesis by simp
  qed
  have run: "run_console_version sa PANDAS_AVAILABLE pl df = ((?inicio @ dados) @ ?fim, None)"
    by (simp add: run_console_version_def Let_def d)
  have "\<And>x. x \<in> set (?inicio @ dados) \<Longrightarrow> ?P x"
    using nd
    by (auto simp: show_dependencies_status_def disponivel_def replicate_not_heading
          replicate_not_heading [THEN not_sym])
  then have "dropWhile ?P ((?inicio @ dados) @ ?fim) = dropWhile ?P ?fim"
    by (rule dropWhile_append2)
  then have "dropWhile ?P (fst (run_console_version sa PANDAS_AVAILABLE pl df)) = ?fim"
    unfolding run by simp
  then show ?thesis
    unfolding insights_printed_def by (simp add: run)
qed

text \<open>
  Claim C10, as the code has it. The insights shown by \<open>run_streamlit_version\<close> are
  the five texts of the list \<open>insights\<close>, whatever the frame and the availability
  flags; two runs show the same texts. The console version prints its four bullets,
  the same for every frame, on every run that reaches them: every run on a non-empty
  frame does, and such a run ends without an exception.
\<close>

theorem insight_texts_constant:
  "insights_shown (run_streamlit_version True sa1 pa1 pl1 ch1 df1) =
     insights_shown (run_streamlit_version True sa2 pa2 pl2 ch2 df2) \<and>
   insights_shown (run_streamlit_version True sa1 pa1 pl1 ch1 df1) = insights \<and>
   (df1 \<noteq> [] \<and> df2 \<noteq> [] \<longrightarrow>
      snd (run_console_version sa1 pa1 pl1 df1) = None \<and>
      snd (run_console_version sa2 pa2 pl2 df2) = None \<and>
      insights_printed (fst (run_console_version sa1 pa1 pl1 df1)) =
        insights_printed (fst (run_console_version sa2 pa2 pl2 df2)) \<and>
      insights_printed (fst (run_console_version sa1 pa1 pl1 df1)) =
        [''* Luanda mantem lideranca no turismo nacional'',
         ''* Crescimento medio de 15% no numero de visitantes'',
         ''* Huila apresenta maior indice de satisfacao'',
         ''* Potencial de desenvolvimento no interior''])"
proof -
  have "snd (run_console_version sa1 pa1 pl1 df1) = None \<and>
        snd (run_console_version sa2 pa2 pl2 df2) = None \<and>
        insights_printed (fst (run_console_version sa1 pa1 pl1 df1)) =
          insights_printed (fst (run_console_version sa2 pa2 pl2 df2)) \<and>
        insights_printed (fst (run_console_version sa1 pa1 pl1 df1)) =
          [''* Luanda mantem lideranca no turismo nacional'',
           ''* Crescimento medio de 15% no numero de visitantes'',
           ''* Huila apresenta maior indice de satisfacao'',
           ''* Potencial de desenvolvimento no interior'']"
    if "df1 \<noteq> []" and "df2 \<noteq> []"
    using run_console_version_completes [of pa1 df1 sa1 pl1]
      run_console_version_completes [of pa2 df2 sa2 pl2] that
    by simp
  then show ?thesis
    by (simp only: insights_shown_page) blast
qed

theorem insight_texts_constant_witness:
  "generate_sample_data \<noteq> [] \<and>
   [\<lparr>Provincia = ''Zaire'', Visitantes_2023 = 0, Visitantes_2024 = 7,
     Receita_AOA = 1, Hoteis = 2, Satisfacao = 3\<rparr>] \<noteq> [] \<and>
   insights_shown (run_streamlit_version True True True True True generate_sample_data) =
     insights_shown (run_streamlit_version True True True False True
       [\<lparr>Provincia = ''Zaire'', Visitantes_2023 = 0, Visitantes_2024 = 7,
         Receita_AOA = 1, Hoteis = 2, Satisfacao = 3\<rparr>]) \<and>
   insights_printed (fst (run_console_version False True False generate_sample_data)) =
     insights_printed (fst (run_console_version False True False
       [\<lparr>Provincia = ''Zaire'', Visitantes_2023 = 0, Visitantes_2024 = 7,
         Receita_AOA = 1, Hoteis = 2, Satisfacao = 3\<rparr>]))"
proof -
  have ne: "generate_sample_data \<noteq> []"
    by (simp add: generate_sample_data_def)
  show ?thesis
    using insight_texts_constant [of True True True True generate_sample_data
        True True False True
        "[\<lparr>Provincia = ''Zaire'', Visitantes_2023 = 0, Visitantes_2024 = 7,
           Receita_AOA = 1, Hoteis = 2, Satisfacao = 3\<rparr>]"]
      insight_texts_constant [of False True False True generate_sample_data
        False True False True
        "[\<lparr>Provincia = ''Zaire'', Visitantes_2023 = 0, Visitantes_2024 = 7,
           Receita_AOA = 1, Hoteis = 2, Satisfacao = 3\<rparr>]"]
      ne
    by simp
qed

text \<open>
  The claim as stated fails for the console version on the pair of the empty frame
  and the sample frame: on the empty frame with pandas available \<open>idxmax\<close> raises
  ValueError at the last statistics line and no bullet is printed, on the sample frame
  the four bullets are printed.
\<close>

theorem insight_texts_constant_counterexample:
  "snd (run_console_version True True True []) = Some ValueError \<and>
   insights_printed (fst (run_console_version True True True [])) = [] \<and>
   insights_printed (fst (run_console_version True True True generate_sample_data)) =
     [''* Luanda mantem lideranca no turismo nacional'',
      ''* Crescimento medio de 15% no numero de visitantes'',
      ''* Huila apresenta maior indice de satisfacao'',
      ''* Potencial de desenvolvimento no interior'']"
  by code_simp

end
